theory Spec2Isabelle
  imports Complex_Main "HOL-Library.Char_ord" "HOL-Library.List_Lexorder"
begin

section \<open>Cell values\<close>

text \<open>
  A cell value as openpyxl hands it to \<^verbatim>\<open>excel_diff.py\<close>: \<^verbatim>\<open>None\<close>, a \<^verbatim>\<open>bool\<close>,
  an \<^verbatim>\<open>int\<close> (unbounded), a \<^verbatim>\<open>float\<close>, a \<^verbatim>\<open>str\<close> or a date/time object.
  A float is given by the rational number it denotes (finite doubles only), a date/time
  object by the text \<^verbatim>\<open>str()\<close> renders it as. Text is a list of code points below 256.
\<close>

datatype pyval =
    PNone
  | PBool bool
  | PInt int
  | PFloat rat
  | PStr string
  | PDate string

text \<open>
  The two places where the program computes with doubles are not fixed by the model but
  passed in: \<open>float_close a b t\<close> stands for the value of
  \<^verbatim>\<open>abs(float(a) - float(b)) <= t\<close> inside the \<^verbatim>\<open>try\<close> of \<^verbatim>\<open>equal_values\<close> (\<open>False\<close> when the
  expression raises), and \<open>float_str x\<close> for \<^verbatim>\<open>str(x)\<close> of a float.
\<close>

record py_prims =
  float_close :: "rat \<Rightarrow> rat \<Rightarrow> rat \<Rightarrow> bool"
  float_str :: "rat \<Rightarrow> string"

text \<open>The numeric value of a bool, int or float; Python compares these three exactly.\<close>

fun num_val :: "pyval \<Rightarrow> rat option" where
  "num_val (PBool b) = Some (if b then 1 else 0)"
| "num_val (PInt i) = Some (of_int i)"
| "num_val (PFloat q) = Some q"
| "num_val _ = None"

text \<open>\<^verbatim>\<open>a == b\<close> on cell values.\<close>

definition py_eq :: "pyval \<Rightarrow> pyval \<Rightarrow> bool" where
  "py_eq a b =
     (case (num_val a, num_val b) of
        (Some x, Some y) \<Rightarrow> x = y
      | (None, None) \<Rightarrow> a = b
      | _ \<Rightarrow> False)"

text \<open>\<^verbatim>\<open>isinstance(x, str)\<close>.\<close>

fun is_str :: "pyval \<Rightarrow> bool" where
  "is_str (PStr s) = True"
| "is_str _ = False"

text \<open>\<^verbatim>\<open>isinstance(x, (int, float)) and not isinstance(x, bool)\<close>.\<close>

fun is_number :: "pyval \<Rightarrow> bool" where
  "is_number (PInt i) = True"
| "is_number (PFloat q) = True"
| "is_number _ = False"

subsection \<open>Text primitives\<close>

definition digit_char :: "nat \<Rightarrow> char" where
  "digit_char d = char_of (48 + d)"

text \<open>\<^verbatim>\<open>str(n)\<close> for a natural number: its decimal digits.\<close>

fun str_nat :: "nat \<Rightarrow> string" where
  "str_nat n = (if n < 10 then [digit_char n] else str_nat (n div 10) @ [digit_char (n mod 10)])"

declare str_nat.simps [simp del]

definition str_int :: "int \<Rightarrow> string" where
  "str_int i = (if i < 0 then CHR ''-'' # str_nat (nat (- i)) else str_nat (nat i))"

text \<open>\<^verbatim>\<open>ch.isspace()\<close> on code points below 256.\<close>

definition isspace :: "char \<Rightarrow> bool" where
  "isspace ch = (let n = (of_char ch :: nat) in
     (9 \<le> n \<and> n \<le> 13) \<or> (28 \<le> n \<and> n \<le> 32) \<or> n = 133 \<or> n = 160)"

text \<open>\<^verbatim>\<open>s.strip()\<close>: leading and trailing whitespace removed.\<close>

definition strip :: "string \<Rightarrow> string" where
  "strip s = rev (dropWhile isspace (rev (dropWhile isspace s)))"

text \<open>\<^verbatim>\<open>s.lower()\<close> on code points below 256: A-Z and the accented capitals move up by 32.\<close>

definition lower_char :: "char \<Rightarrow> char" where
  "lower_char ch = (let n = (of_char ch :: nat) in
     if (65 \<le> n \<and> n \<le> 90) \<or> (192 \<le> n \<and> n \<le> 222 \<and> n \<noteq> 215) then char_of (n + 32) else ch)"

definition lower :: "string \<Rightarrow> string" where
  "lower s = map lower_char s"

text \<open>\<^verbatim>\<open>str(x)\<close> on a cell value.\<close>

fun py_str :: "py_prims \<Rightarrow> pyval \<Rightarrow> string" where
  "py_str P PNone = ''None''"
| "py_str P (PBool b) = (if b then ''True'' else ''False'')"
| "py_str P (PInt i) = str_int i"
| "py_str P (PFloat q) = float_str P q"
| "py_str P (PStr s) = s"
| "py_str P (PDate s) = s"

section \<open>Value equality\<close>

text \<open>
  \<^verbatim>\<open>normalize_str\<close>: \<^verbatim>\<open>None\<close> and non-strings pass through, a string is stripped
  when \<open>trim_whitespace\<close> and then lower-cased when \<open>case_insensitive\<close>.
\<close>

fun normalize_str :: "pyval \<Rightarrow> bool \<Rightarrow> bool \<Rightarrow> pyval" where
  "normalize_str PNone trim_whitespace case_insensitive = PNone"
| "normalize_str (PStr s) trim_whitespace case_insensitive =
     (let out = (if trim_whitespace then strip s else s)
      in PStr (if case_insensitive then lower out else out))"
| "normalize_str v trim_whitespace case_insensitive = v"

text \<open>\<^verbatim>\<open>str(a) if a is not None else None\<close>.\<close>

definition str_or_none :: "py_prims \<Rightarrow> pyval \<Rightarrow> pyval" where
  "str_or_none P a = (if a \<noteq> PNone then PStr (py_str P a) else PNone)"

definition equal_values :: "py_prims \<Rightarrow> pyval \<Rightarrow> pyval \<Rightarrow> rat \<Rightarrow> bool \<Rightarrow> bool \<Rightarrow> bool" where
  "equal_values P a b tolerance trim_whitespace case_insensitive =
     (if py_eq a b then True
      else if is_number a \<and> is_number b then
        (case (num_val a, num_val b) of
           (Some x, Some y) \<Rightarrow> float_close P x y tolerance
         | _ \<Rightarrow> False)
      else if is_str a \<or> is_str b then
        py_eq (normalize_str (str_or_none P a) trim_whitespace case_insensitive)
              (normalize_str (str_or_none P b) trim_whitespace case_insensitive)
      else False)"

section \<open>Worksheets\<close>

text \<open>A merged range \<^verbatim>\<open>mr\<close> of \<^verbatim>\<open>ws.merged_cells\<close>, with the four bounds the program reads.\<close>

datatype cell_range =
  CellRange (min_row: nat) (min_col: nat) (max_row: nat) (max_col: nat)

text \<open>
  A worksheet loaded for comparison. \<open>cells\<close> holds the values by (row, column);
  \<open>dimension\<close>, \<open>ws_max_row\<close> and \<open>ws_max_column\<close> are what openpyxl's
  \<^verbatim>\<open>ws.calculate_dimension()\<close>, \<^verbatim>\<open>ws.max_row\<close> and \<^verbatim>\<open>ws.max_column\<close> report for it.
\<close>

record worksheet =
  title :: string
  cells :: "nat \<times> nat \<rightharpoonup> pyval"
  merged_cells :: "cell_range list"
  dimension :: string
  ws_max_row :: nat
  ws_max_column :: nat

type_synonym workbook = "worksheet list"

text \<open>\<^verbatim>\<open>ws.cell(row=r, column=c).value\<close>: \<^verbatim>\<open>None\<close> where the sheet has no value.\<close>

definition cell_value :: "worksheet \<Rightarrow> nat \<Rightarrow> nat \<Rightarrow> pyval" where
  "cell_value ws r c = (case cells ws (r, c) of None \<Rightarrow> PNone | Some v \<Rightarrow> v)"

subsection \<open>Column letters (openpyxl.utils)\<close>

text \<open>\<^verbatim>\<open>ch.isalpha()\<close> and \<^verbatim>\<open>ch.isdigit()\<close> on code points below 256.\<close>

definition isalpha :: "char \<Rightarrow> bool" where
  "isalpha ch = (let n = (of_char ch :: nat) in
     (65 \<le> n \<and> n \<le> 90) \<or> (97 \<le> n \<and> n \<le> 122) \<or> n = 170 \<or> n = 181 \<or> n = 186
     \<or> (192 \<le> n \<and> n \<le> 214) \<or> (216 \<le> n \<and> n \<le> 246) \<or> 248 \<le> n)"

definition isdigit :: "char \<Rightarrow> bool" where
  "isdigit ch = (let n = (of_char ch :: nat) in
     (48 \<le> n \<and> n \<le> 57) \<or> n = 178 \<or> n = 179 \<or> n = 185)"

text \<open>
  \<^verbatim>\<open>int(s)\<close> on a string of \<open>isdigit\<close> characters: the decimal value, \<open>None\<close>
  (ValueError) on the empty string and on the superscript digits. The cap that recent
  Python versions put on the number of digits is not modelled.
\<close>

definition py_int :: "string \<Rightarrow> nat option" where
  "py_int s =
     (if s \<noteq> [] \<and> list_all (\<lambda>ch. 48 \<le> (of_char ch :: nat) \<and> (of_char ch :: nat) \<le> 57) s
      then Some (foldl (\<lambda>acc ch. 10 * acc + (of_char ch - 48)) 0 s)
      else None)"

text \<open>
  \<^verbatim>\<open>get_column_letter(idx)\<close>: the letters of column 1 to 18278 (A to ZZZ), \<open>None\<close>
  (ValueError) outside that range.
\<close>

fun column_letters :: "nat \<Rightarrow> string" where
  "column_letters n =
     (if n = 0 then []
      else column_letters ((n - 1) div 26) @ [char_of (65 + (n - 1) mod 26)])"

declare column_letters.simps [simp del]

definition get_column_letter :: "nat \<Rightarrow> string option" where
  "get_column_letter idx = (if 1 \<le> idx \<and> idx \<le> 18278 then Some (column_letters idx) else None)"

text \<open>
  \<^verbatim>\<open>column_index_from_string(str_col)\<close>: the name is upper-cased (the sharp s becomes SS)
  and must then be one to three letters A to Z; \<open>None\<close> (ValueError) otherwise.
\<close>

definition upper_char :: "char \<Rightarrow> string" where
  "upper_char ch = (let n = (of_char ch :: nat) in
     if 97 \<le> n \<and> n \<le> 122 then [char_of (n - 32)]
     else if n = 223 then ''SS''
     else [ch])"

definition column_index_from_string :: "string \<Rightarrow> nat option" where
  "column_index_from_string str_col =
     (let u = concat (map upper_char str_col) in
      if 1 \<le> length u \<and> length u \<le> 3
         \<and> list_all (\<lambda>ch. 65 \<le> (of_char ch :: nat) \<and> (of_char ch :: nat) \<le> 90) u
      then Some (foldl (\<lambda>acc ch. 26 * acc + (of_char ch - 64)) 0 u)
      else None)"

text \<open>\<^verbatim>\<open>cell_coord\<close>: column letters followed by the row number.\<close>

definition cell_coord :: "nat \<Rightarrow> nat \<Rightarrow> string option" where
  "cell_coord row col = map_option (\<lambda>letters. letters @ str_nat row) (get_column_letter col)"

subsection \<open>Grid accessor\<close>

text \<open>The coordinates of one merged range, without its top-left anchor.\<close>

definition range_non_anchors :: "cell_range \<Rightarrow> (nat \<times> nat) list" where
  "range_non_anchors mr =
     concat (map (\<lambda>r. concat (map (\<lambda>c. if r = min_row mr \<and> c = min_col mr then [] else [(r, c)])
                                [min_col mr ..< max_col mr + 1]))
                 [min_row mr ..< max_row mr + 1])"

definition merged_non_anchors :: "worksheet \<Rightarrow> (nat \<times> nat) set" where
  "merged_non_anchors ws = set (concat (map range_non_anchors (merged_cells ws)))"

text \<open>The part of the dimension text after the first colon, or all of it.\<close>

definition bottom_right :: "string \<Rightarrow> string" where
  "bottom_right dim_text =
     (if CHR '':'' \<in> set dim_text then tl (dropWhile (\<lambda>ch. ch \<noteq> CHR '':'') dim_text)
      else dim_text)"

text \<open>
  \<^verbatim>\<open>sheet_used_bounds\<close>: (max_row, max_col) parsed from the dimension text; when a
  conversion raises, \<^verbatim>\<open>(ws.max_row or 1, ws.max_column or 1)\<close>.
\<close>

definition sheet_used_bounds :: "worksheet \<Rightarrow> nat \<times> nat" where
  "sheet_used_bounds ws =
     (let br = bottom_right (dimension ws);
          col_letters = filter isalpha br;
          row_digits = filter isdigit br;
          fallback = (if ws_max_row ws \<noteq> 0 then ws_max_row ws else 1,
                      if ws_max_column ws \<noteq> 0 then ws_max_column ws else 1)
      in case (if col_letters \<noteq> [] then column_index_from_string col_letters else Some 1) of
           None \<Rightarrow> fallback
         | Some max_c \<Rightarrow>
             (case py_int (if row_digits \<noteq> [] then row_digits else ''1'') of
                None \<Rightarrow> fallback
              | Some max_r \<Rightarrow> (max_r, max_c)))"

section \<open>Cell diff engine\<close>

text \<open>
  The body of the loop of \<^verbatim>\<open>iter_diff_cells\<close> at one coordinate with base value \<open>a\<close>
  and new value \<open>b\<close>: the status it yields, or \<open>None\<close> when it yields nothing.
\<close>

definition diff_status :: "py_prims \<Rightarrow> pyval \<Rightarrow> pyval \<Rightarrow> rat \<Rightarrow> bool \<Rightarrow> bool \<Rightarrow> string option" where
  "diff_status P a b tolerance trim_whitespace case_insensitive =
     (let a_empty = (a = PNone \<or> py_eq a (PStr ''''));
          b_empty = (b = PNone \<or> py_eq b (PStr ''''))
      in if a_empty \<and> b_empty then None
         else if a_empty \<and> \<not> b_empty then Some ''added''
         else if b_empty \<and> \<not> a_empty then Some ''removed''
         else if \<not> equal_values P a b tolerance trim_whitespace case_insensitive
           then Some ''changed''
         else None)"

definition iter_diff_cells ::
  "py_prims \<Rightarrow> worksheet \<Rightarrow> worksheet \<Rightarrow> rat \<Rightarrow> bool \<Rightarrow> bool \<Rightarrow> (nat \<times> nat \<times> string) list" where
  "iter_diff_cells P base_ws new_ws tolerance trim_whitespace case_insensitive =
     (let max_r = max (fst (sheet_used_bounds base_ws)) (fst (sheet_used_bounds new_ws));
          max_c = max (snd (sheet_used_bounds base_ws)) (snd (sheet_used_bounds new_ws));
          base_skip = merged_non_anchors base_ws;
          new_skip = merged_non_anchors new_ws
      in concat (map (\<lambda>r. concat (map (\<lambda>c.
           if (r, c) \<in> base_skip \<or> (r, c) \<in> new_skip then []
           else (case diff_status P (cell_value base_ws r c) (cell_value new_ws r c)
                        tolerance trim_whitespace case_insensitive of
                   None \<Rightarrow> []
                 | Some st \<Rightarrow> [(r, c, st)]))
           [1 ..< max_c + 1])) [1 ..< max_r + 1]))"

section \<open>Difference records and the output workbook\<close>

record DiffRecord =
  sheet :: string
  cell :: string
  status :: string
  old :: pyval
  new :: pyval

datatype fill = FILL_CHANGED | FILL_ADDED | FILL_REMOVED

text \<open>
  A sheet of the writable copy \<^verbatim>\<open>new_wb_out\<close>. The program only writes to it: values
  (the summary rows) and fills; its title identifies it.
\<close>

record out_sheet =
  out_title :: string
  out_cells :: "nat \<times> nat \<rightharpoonup> pyval"
  out_fills :: "nat \<times> nat \<rightharpoonup> fill"

type_synonym out_workbook = "out_sheet list"

text \<open>\<^verbatim>\<open>wb.sheetnames\<close>, for both kinds of workbook.\<close>

definition sheetnames :: "out_workbook \<Rightarrow> string list" where
  "sheetnames wb = map out_title wb"

definition ws_sheetnames :: "workbook \<Rightarrow> string list" where
  "ws_sheetnames wb = map title wb"

text \<open>\<^verbatim>\<open>wb[s]\<close>: the sheet titled \<open>s\<close>; \<open>None\<close> stands for KeyError.\<close>

definition get_sheet :: "workbook \<Rightarrow> string \<Rightarrow> worksheet option" where
  "get_sheet wb s = find (\<lambda>ws. title ws = s) wb"

section \<open>Summary builder\<close>

lemma str_nat_not_Nil: "str_nat n \<noteq> []"
  by (subst str_nat.simps) simp

lemma digit_char_inject:
  assumes "a < 10" and "b < 10" and "digit_char a = digit_char b"
  shows "a = b"
proof -
  have "(of_char (digit_char a) :: nat) = of_char (digit_char b)"
    using assms(3) by simp
  then have "(48 + a) mod 256 = (48 + b) mod 256"
    by (simp add: digit_char_def)
  moreover have "(48 + a) mod 256 = 48 + a" and "(48 + b) mod 256 = 48 + b"
    using assms(1,2) by simp_all
  ultimately show ?thesis by simp
qed

lemma str_nat_inject: "str_nat m = str_nat n \<Longrightarrow> m = n"
proof (induction m arbitrary: n rule: str_nat.induct)
  case (1 m)
  show ?case
  proof (cases "m < 10")
    case small_m: True
    show ?thesis
    proof (cases "n < 10")
      case True
      with small_m "1.prems" show ?thesis
        by (simp add: str_nat.simps [of m] str_nat.simps [of n] digit_char_inject)
    next
      case False
      with small_m "1.prems" have "[] = str_nat (n div 10)"
        by (simp add: str_nat.simps [of m] str_nat.simps [of n])
      then show ?thesis
        using str_nat_not_Nil [of "n div 10"] by simp
    qed
  next
    case big_m: False
    show ?thesis
    proof (cases "n < 10")
      case True
      with big_m "1.prems" have "str_nat (m div 10) = []"
        by (simp add: str_nat.simps [of m] str_nat.simps [of n])
      then show ?thesis
        using str_nat_not_Nil [of "m div 10"] by simp
    next
      case False
      with big_m "1.prems" have tens: "str_nat (m div 10) = str_nat (n div 10)"
        and units: "digit_char (m mod 10) = digit_char (n mod 10)"
        by (simp_all add: str_nat.simps [of m] str_nat.simps [of n])
      from "1.IH" [OF big_m tens] have "m div 10 = n div 10" .
      moreover from units have "m mod 10 = n mod 10"
        by (rule digit_char_inject [rotated 2]) simp_all
      ultimately show ?thesis
        by (metis div_mult_mod_eq)
    qed
  qed
qed

text \<open>
  The \<^verbatim>\<open>while\<close> loop of \<^verbatim>\<open>ensure_unique_sheet_name\<close>, started at \<open>i\<close>: the first
  index from \<open>i\<close> on whose name \<^verbatim>\<open>f"{name}_{i}"\<close> is not a sheet name.
\<close>

function unique_index :: "string list \<Rightarrow> string \<Rightarrow> nat \<Rightarrow> nat" where
  "unique_index names name i =
     (if name @ ''_'' @ str_nat i \<in> set names then unique_index names name (i + 1) else i)"
  by pat_completeness auto
termination
proof (relation "measure (\<lambda>(names, name, i).
         card {s \<in> set names. \<exists>j\<ge>i. s = name @ ''_'' @ str_nat j})")
  show "wf (measure (\<lambda>(names, name, i).
         card {s \<in> set names. \<exists>j\<ge>i. s = name @ ''_'' @ str_nat j}))"
    by simp
next
  fix names :: "string list" and name :: string and i :: nat
  assume taken: "name @ ''_'' @ str_nat i \<in> set names"
  let ?later = "{s \<in> set names. \<exists>j\<ge>i + 1. s = name @ ''_'' @ str_nat j}"
  let ?now = "{s \<in> set names. \<exists>j\<ge>i. s = name @ ''_'' @ str_nat j}"
  have "name @ ''_'' @ str_nat i \<in> ?now"
    using taken by auto
  moreover have "name @ ''_'' @ str_nat i \<notin> ?later"
  proof
    assume "name @ ''_'' @ str_nat i \<in> ?later"
    then obtain j where "i + 1 \<le> j" and "name @ ''_'' @ str_nat i = name @ ''_'' @ str_nat j"
      by blast
    then have "i + 1 \<le> j" and "i = j"
      by (simp_all add: str_nat_inject)
    then show False by simp
  qed
  moreover have "?later \<subseteq> ?now"
  proof
    fix s
    assume "s \<in> ?later"
    then obtain j where "s \<in> set names" and "i + 1 \<le> j" and "s = name @ ''_'' @ str_nat j"
      by blast
    moreover from this have "i \<le> j"
      by simp
    ultimately show "s \<in> ?now"
      by blast
  qed
  ultimately have "?later \<subset> ?now"
    by blast
  then have "card ?later < card ?now"
    by (intro psubset_card_mono) simp_all
  then show "((names, name, i + 1), (names, name, i)) \<in> measure (\<lambda>(names, name, i).
         card {s \<in> set names. \<exists>j\<ge>i. s = name @ ''_'' @ str_nat j})"
    by simp
qed

declare unique_index.simps [simp del]

definition ensure_unique_sheet_name :: "out_workbook \<Rightarrow> string \<Rightarrow> string" where
  "ensure_unique_sheet_name wb name =
     (if name \<notin> set (sheetnames wb) then name
      else name @ ''_'' @ str_nat (unique_index (sheetnames wb) name 1))"

text \<open>\<^verbatim>\<open>wb.remove(wb[t])\<close>: the workbook without its sheet titled \<open>t\<close>.\<close>

fun remove_sheet :: "string \<Rightarrow> out_workbook \<Rightarrow> out_workbook" where
  "remove_sheet t [] = []"
| "remove_sheet t (ws # wb) = (if out_title ws = t then wb else ws # remove_sheet t wb)"

text \<open>\<^verbatim>\<open>wb.create_sheet(t, index)\<close> with a title no sheet has: an empty sheet at \<open>index\<close>.\<close>

definition create_sheet :: "string \<Rightarrow> nat \<Rightarrow> out_workbook \<Rightarrow> out_workbook" where
  "create_sheet t index wb =
     take index wb @ [\<lparr>out_title = t, out_cells = Map.empty, out_fills = Map.empty\<rparr>] @ drop index wb"

text \<open>The rows \<^verbatim>\<open>add_summary_sheet\<close> appends: the header, then one row per record.\<close>

definition summary_rows :: "DiffRecord list \<Rightarrow> pyval list list" where
  "summary_rows diff_list =
     [PStr ''Sheet'', PStr ''Cell'', PStr ''Status'', PStr ''Old Value'', PStr ''New Value'']
     # map (\<lambda>d. [PStr (sheet d), PStr (cell d), PStr (status d), old d, new d]) diff_list"

text \<open>\<^verbatim>\<open>ws.append(row)\<close>: the row goes below the rows the sheet has, from column 1.\<close>

definition append_row :: "nat \<Rightarrow> pyval list \<Rightarrow> (nat \<times> nat \<rightharpoonup> pyval) \<Rightarrow> (nat \<times> nat \<rightharpoonup> pyval)" where
  "append_row r row m = fold (\<lambda>(c, v) m'. m'((r, c) \<mapsto> v)) (zip [1 ..< length row + 1] row) m"

definition append_rows :: "pyval list list \<Rightarrow> (nat \<times> nat \<rightharpoonup> pyval) \<Rightarrow> (nat \<times> nat \<rightharpoonup> pyval)" where
  "append_rows rows m = fold (\<lambda>(r, row) m'. append_row r row m') (zip [1 ..< length rows + 1] rows) m"

text \<open>
  \<^verbatim>\<open>add_summary_sheet\<close>. The sheet created at index 0 is then filled through \<^verbatim>\<open>ws\<close>;
  the header font, frozen pane, filter and column widths it also sets are not modelled,
  and every \<^verbatim>\<open>ws.append\<close> is taken to succeed (openpyxl's checks on the values written
  are not modelled).
\<close>

definition add_summary_sheet :: "out_workbook \<Rightarrow> DiffRecord list \<Rightarrow> out_workbook" where
  "add_summary_sheet wb_out diff_list =
     (let t = ensure_unique_sheet_name wb_out ''Diff_Summary'';
          wb1 = (if t \<in> set (sheetnames wb_out) then remove_sheet t wb_out else wb_out)
      in case create_sheet t 0 wb1 of
           ws # rest \<Rightarrow> ws\<lparr>out_cells := append_rows (summary_rows diff_list) (out_cells ws)\<rparr> # rest
         | [] \<Rightarrow> [])"

section \<open>Workbook comparator\<close>

datatype py_error = ValueError | KeyError

text \<open>
  \<^verbatim>\<open>if include_sheets\<close>, \<^verbatim>\<open>if exclude_sheets\<close>: an optional set is taken as true when it
  is a non-empty set; \<^verbatim>\<open>s in ...\<close> is asked of such a set only.
\<close>

definition truthy :: "string set option \<Rightarrow> bool" where
  "truthy opt = (case opt of None \<Rightarrow> False | Some A \<Rightarrow> A \<noteq> {})"

definition contains :: "string set option \<Rightarrow> string \<Rightarrow> bool" where
  "contains opt s = (case opt of None \<Rightarrow> False | Some A \<Rightarrow> s \<in> A)"

text \<open>The two \<^verbatim>\<open>continue\<close> tests of the missing-sheet loops.\<close>

definition skipped :: "string set option \<Rightarrow> string set option \<Rightarrow> string \<Rightarrow> bool" where
  "skipped include_sheets exclude_sheets s =
     ((truthy include_sheets \<and> \<not> contains include_sheets s)
      \<or> (truthy exclude_sheets \<and> contains exclude_sheets s))"

definition missing_record :: "string \<Rightarrow> string \<Rightarrow> DiffRecord" where
  "missing_record st s = \<lparr>sheet = s, cell = '''', status = st, old = PNone, new = PNone\<rparr>"

text \<open>A loop that appends \<open>f x\<close> for each \<open>x\<close> and stops at the first exception.\<close>

fun collect :: "('a \<Rightarrow> py_error + 'b) \<Rightarrow> 'a list \<Rightarrow> py_error + 'b list" where
  "collect f [] = Inr []"
| "collect f (x # xs) =
     (case f x of
        Inl e \<Rightarrow> Inl e
      | Inr y \<Rightarrow> (case collect f xs of Inl e \<Rightarrow> Inl e | Inr ys \<Rightarrow> Inr (y # ys)))"

text \<open>The record built for one yielded \<open>(r, c, status)\<close>; \<^verbatim>\<open>cell_coord\<close> may raise.\<close>

definition cell_record ::
  "string \<Rightarrow> worksheet \<Rightarrow> worksheet \<Rightarrow> nat \<times> nat \<times> string \<Rightarrow> py_error + DiffRecord" where
  "cell_record s base_ws new_ws item =
     (case item of (r, c, st) \<Rightarrow>
        (case cell_coord r c of
           None \<Rightarrow> Inl ValueError
         | Some cl \<Rightarrow> Inr \<lparr>sheet = s, cell = cl, status = st,
                           old = cell_value base_ws r c, new = cell_value new_ws r c\<rparr>))"

text \<open>The fill chosen by the \<^verbatim>\<open>if/elif\<close> chain on the status.\<close>

definition status_fill :: "string \<Rightarrow> fill option" where
  "status_fill st =
     (if st = ''added'' then Some FILL_ADDED
      else if st = ''removed'' then Some FILL_REMOVED
      else if st = ''changed'' then Some FILL_CHANGED
      else None)"

text \<open>
  \<^verbatim>\<open>new_ws_out.cell(row=r, column=c).fill = ...\<close> on the output sheet titled \<open>s\<close>;
  nothing happens when the output workbook has no such sheet.
\<close>

fun set_fill :: "string \<Rightarrow> nat \<times> nat \<times> string \<Rightarrow> out_workbook \<Rightarrow> out_workbook" where
  "set_fill s item [] = []"
| "set_fill s item (ws # wb) =
     (if out_title ws = s then
        (case item of (r, c, st) \<Rightarrow>
           (case status_fill st of
              None \<Rightarrow> ws
            | Some f \<Rightarrow> ws\<lparr>out_fills := (out_fills ws)((r, c) \<mapsto> f)\<rparr>)) # wb
      else ws # set_fill s item wb)"

text \<open>The body of \<^verbatim>\<open>for s in to_compare\<close> for one sheet pair.\<close>

definition compare_sheet ::
  "py_prims \<Rightarrow> string \<Rightarrow> worksheet \<Rightarrow> worksheet \<Rightarrow> rat \<Rightarrow> bool \<Rightarrow> bool \<Rightarrow> bool \<Rightarrow> out_workbook
   \<Rightarrow> py_error + (DiffRecord list \<times> out_workbook)" where
  "compare_sheet P s base_ws new_ws tolerance trim_whitespace case_insensitive highlight wb_out =
     (let items = iter_diff_cells P base_ws new_ws tolerance trim_whitespace case_insensitive
      in case collect (cell_record s base_ws new_ws) items of
           Inl e \<Rightarrow> Inl e
         | Inr recs \<Rightarrow> Inr (recs, if highlight then fold (set_fill s) items wb_out else wb_out))"

fun compare_sheets ::
  "py_prims \<Rightarrow> workbook \<Rightarrow> workbook \<Rightarrow> rat \<Rightarrow> bool \<Rightarrow> bool \<Rightarrow> bool \<Rightarrow> string list \<Rightarrow> out_workbook
   \<Rightarrow> py_error + (DiffRecord list \<times> out_workbook)" where
  "compare_sheets P base_wb new_wb tolerance trim_whitespace case_insensitive highlight [] wb_out =
     Inr ([], wb_out)"
| "compare_sheets P base_wb new_wb tolerance trim_whitespace case_insensitive highlight (s # ss) wb_out =
     (case (get_sheet base_wb s, get_sheet new_wb s) of
        (Some base_ws, Some new_ws) \<Rightarrow>
          (case compare_sheet P s base_ws new_ws tolerance trim_whitespace case_insensitive
                  highlight wb_out of
             Inl e \<Rightarrow> Inl e
           | Inr (recs, wb1) \<Rightarrow>
               (case compare_sheets P base_wb new_wb tolerance trim_whitespace case_insensitive
                       highlight ss wb1 of
                  Inl e \<Rightarrow> Inl e
                | Inr (rest, wb2) \<Rightarrow> Inr (recs @ rest, wb2)))
      | _ \<Rightarrow> Inl KeyError)"

text \<open>
  \<^verbatim>\<open>compare_workbooks\<close> on the three loaded workbooks. The result is the returned pair
  \<^verbatim>\<open>(len(to_compare), len(diffs))\<close>, the list \<^verbatim>\<open>diffs\<close> and the workbook that is saved;
  \<open>Inl\<close> is an exception, after which nothing is saved. The paths and
  \<^verbatim>\<open>compare_formulas\<close> only decide how the three workbooks are loaded and where the
  result is written.
\<close>

definition compare_workbooks ::
  "py_prims \<Rightarrow> workbook \<Rightarrow> workbook \<Rightarrow> out_workbook \<Rightarrow> string set option \<Rightarrow> string set option
   \<Rightarrow> rat \<Rightarrow> bool \<Rightarrow> bool \<Rightarrow> bool
   \<Rightarrow> py_error + ((nat \<times> nat) \<times> DiffRecord list \<times> out_workbook)" where
  "compare_workbooks P base_wb new_wb_values new_wb_out include_sheets exclude_sheets
       tolerance trim_whitespace case_insensitive highlight =
     (let base_sheets = set (ws_sheetnames base_wb);
          new_sheets = set (ws_sheetnames new_wb_values);
          common = sorted_list_of_set (base_sheets \<inter> new_sheets);
          included = (if truthy include_sheets
                      then filter (\<lambda>s. contains include_sheets s) common else common);
          to_compare = (if truthy exclude_sheets
                        then filter (\<lambda>s. \<not> contains exclude_sheets s) included else included);
          only_in_base = base_sheets - new_sheets;
          only_in_new = new_sheets - base_sheets;
          missing =
            map (missing_record ''missing_sheet_new'')
              (filter (\<lambda>s. \<not> skipped include_sheets exclude_sheets s)
                 (sorted_list_of_set only_in_base))
            @ map (missing_record ''missing_sheet_base'')
              (filter (\<lambda>s. \<not> skipped include_sheets exclude_sheets s)
                 (sorted_list_of_set only_in_new))
      in case compare_sheets P base_wb new_wb_values tolerance trim_whitespace case_insensitive
                highlight to_compare new_wb_out of
           Inl e \<Rightarrow> Inl e
         | Inr (recs, wb1) \<Rightarrow>
             Inr ((length to_compare, length (missing @ recs)), missing @ recs,
                  add_summary_sheet wb1 (missing @ recs)))"

text \<open>
  An instance of the primitives for running the model on inputs whose numbers are not
  rounded: the difference is taken exactly, an integral float prints as Python prints it
  below \<open>10^16\<close>.
\<close>

definition sample_prims :: py_prims where
  "sample_prims =
     \<lparr>float_close = (\<lambda>a b t. \<bar>a - b\<bar> \<le> t), float_str = (\<lambda>q. str_int \<lfloor>q\<rfloor> @ ''.0'')\<rparr>"

section \<open>The specification's wording\<close>

text \<open>
  The text the specification compares in step 3 of the equality oracle: the value
  stringified (whatever it is), stripped when \<open>trim_whitespace\<close>, then lower-cased when
  \<open>case_insensitive\<close>.
\<close>

definition normalized_text :: "py_prims \<Rightarrow> pyval \<Rightarrow> bool \<Rightarrow> bool \<Rightarrow> string" where
  "normalized_text P v trim_whitespace case_insensitive =
     (let out = (if trim_whitespace then strip (py_str P v) else py_str P v)
      in if case_insensitive then lower out else out)"

text \<open>
  A coordinate is a non-anchor member of a declared merged region when it lies in the
  rectangle of some merged range and is not that range's top-left corner.
\<close>

definition non_anchor_member :: "worksheet \<Rightarrow> nat \<times> nat \<Rightarrow> bool" where
  "non_anchor_member ws rc =
     (\<exists>mr \<in> set (merged_cells ws).
        min_row mr \<le> fst rc \<and> fst rc \<le> max_row mr \<and> min_col mr \<le> snd rc \<and> snd rc \<le> max_col mr
        \<and> rc \<noteq> (min_row mr, min_col mr))"

text \<open>
  A coordinate lies within a sheet's used bounds; and a sheet whose values all lie
  within its used bounds, as the bounds openpyxl computes from the cells do.
\<close>

definition in_used_bounds :: "worksheet \<Rightarrow> nat \<times> nat \<Rightarrow> bool" where
  "in_used_bounds ws rc =
     (1 \<le> fst rc \<and> fst rc \<le> fst (sheet_used_bounds ws)
      \<and> 1 \<le> snd rc \<and> snd rc \<le> snd (sheet_used_bounds ws))"

definition values_in_bounds :: "worksheet \<Rightarrow> bool" where
  "values_in_bounds ws = (\<forall>r c. cell_value ws r c \<noteq> PNone \<longrightarrow> in_used_bounds ws (r, c))"




section \<open>Example workbooks\<close>

text \<open>
  A base and a new workbook with one common sheet \<^verbatim>\<open>S1\<close> (a changed cell, a cell that
  holds two blanks in the base and nothing in the new sheet, an added cell, and a
  merged range in the base whose non-anchor cell \<^verbatim>\<open>B3\<close> differs), one sheet only in
  the base and one only in the new workbook.
\<close>

definition example_base :: worksheet where
  "example_base =
     \<lparr>title = ''S1'',
      cells = [(1, 1) \<mapsto> PStr ''foo'', (2, 1) \<mapsto> PInt 100, (1, 2) \<mapsto> PStr ''  ''],
      merged_cells = [CellRange 3 1 4 2],
      dimension = ''A1:B4'', ws_max_row = 4, ws_max_column = 2\<rparr>"

definition example_new :: worksheet where
  "example_new =
     \<lparr>title = ''S1'',
      cells = [(1, 1) \<mapsto> PStr ''FOO'', (2, 1) \<mapsto> PInt 100, (3, 2) \<mapsto> PInt 7, (5, 3) \<mapsto> PBool True],
      merged_cells = [],
      dimension = ''A1:C5'', ws_max_row = 5, ws_max_column = 3\<rparr>"

definition example_base_wb :: workbook where
  "example_base_wb =
     [example_base,
      \<lparr>title = ''Old'', cells = Map.empty, merged_cells = [],
       dimension = ''A1:A1'', ws_max_row = 1, ws_max_column = 1\<rparr>]"

definition example_new_wb :: workbook where
  "example_new_wb =
     [\<lparr>title = ''New'', cells = Map.empty, merged_cells = [],
       dimension = ''A1:A1'', ws_max_row = 1, ws_max_column = 1\<rparr>,
      example_new]"

definition example_out :: out_workbook where
  "example_out =
     [\<lparr>out_title = ''New'', out_cells = Map.empty, out_fills = Map.empty\<rparr>,
      \<lparr>out_title = ''S1'', out_cells = Map.empty, out_fills = Map.empty\<rparr>]"

section \<open>Properties of the equality oracle\<close>

lemma py_eq_sym: "py_eq a b = py_eq b a"
  by (auto simp: py_eq_def split: option.splits)

lemma py_eq_PStr [simp]: "py_eq (PStr s) (PStr t) = (s = t)"
  by (simp add: py_eq_def)

text \<open>
  C7. For all strings \<open>s\<close>, \<open>t\<close> and every configuration (tolerance, trim flag, case
  flag), \<open>equal_values\<close> gives the same answer on \<open>(s, t)\<close> as on \<open>(t, s)\<close>.
\<close>

theorem equal_values_text_symmetric:
  "equal_values P (PStr s) (PStr t) tolerance trim_whitespace case_insensitive =
   equal_values P (PStr t) (PStr s) tolerance trim_whitespace case_insensitive"
  by (simp add: equal_values_def str_or_none_def Let_def eq_commute)

text \<open>
  C8. \<open>is_number\<close> rejects booleans, so the tolerance step never sees them; yet the
  equality shortcut makes \<open>True\<close> equal to the number 1 and \<open>False\<close> equal to the
  number 0 (as an int or as a float, on either side) for every configuration.
\<close>

theorem equal_values_bool_number:
  "\<not> is_number (PBool b)
   \<and> equal_values P (PBool True) (PInt 1) tolerance trim_whitespace case_insensitive
   \<and> equal_values P (PBool False) (PInt 0) tolerance trim_whitespace case_insensitive
   \<and> equal_values P (PInt 1) (PBool True) tolerance trim_whitespace case_insensitive
   \<and> equal_values P (PInt 0) (PBool False) tolerance trim_whitespace case_insensitive
   \<and> equal_values P (PBool True) (PFloat 1) tolerance trim_whitespace case_insensitive
   \<and> equal_values P (PBool False) (PFloat 0) tolerance trim_whitespace case_insensitive"
  by (simp add: equal_values_def py_eq_def)

text \<open>
  C2 (as amended). For values that are not equal under \<open>==\<close>, not both numbers, and of
  which at least one is text: \<open>equal_values\<close> is true exactly when neither value is
  \<^verbatim>\<open>None\<close> and the two values, stringified, stripped when \<open>trim_whitespace\<close> and then
  lower-cased when \<open>case_insensitive\<close>, are the same string. A \<^verbatim>\<open>None\<close> is not
  stringified, so it never equals a text.
\<close>

theorem equal_values_text:
  assumes "\<not> py_eq a b" and "\<not> (is_number a \<and> is_number b)" and "is_str a \<or> is_str b"
  shows "equal_values P a b tolerance trim_whitespace case_insensitive \<longleftrightarrow>
     a \<noteq> PNone \<and> b \<noteq> PNone \<and>
     normalized_text P a trim_whitespace case_insensitive =
     normalized_text P b trim_whitespace case_insensitive"
  using assms
  by (cases a; cases b)
     (simp_all add: equal_values_def str_or_none_def normalized_text_def Let_def py_eq_def)

theorem equal_values_text_witness:
  "\<not> py_eq (PInt 5) (PStr '' 5 '') \<and> \<not> (is_number (PInt 5) \<and> is_number (PStr '' 5 ''))
   \<and> (is_str (PInt 5) \<or> is_str (PStr '' 5 ''))
   \<and> equal_values sample_prims (PInt 5) (PStr '' 5 '') 0 True False
   \<and> normalized_text sample_prims (PInt 5) True False = normalized_text sample_prims (PStr '' 5 '') True False"
proof -
  have h1: "\<not> py_eq (PInt 5) (PStr '' 5 '')"
    by (simp add: py_eq_def)
  have h2: "\<not> (is_number (PInt 5) \<and> is_number (PStr '' 5 ''))"
    by simp
  have h3: "is_str (PInt 5) \<or> is_str (PStr '' 5 '')"
    by simp
  have same: "normalized_text sample_prims (PInt 5) True False
      = normalized_text sample_prims (PStr '' 5 '') True False"
    by code_simp
  with equal_values_text [OF h1 h2 h3, of sample_prims 0 True False] h1 h2 h3 show ?thesis
    by simp
qed

text \<open>
  The claim as written stringifies absent values too. \<^verbatim>\<open>str(None)\<close> is the text
  \<^verbatim>\<open>"None"\<close>, yet \<open>equal_values\<close> does not equate \<^verbatim>\<open>None\<close> with that text.
\<close>

theorem equal_values_absent_counterexample:
  "\<not> py_eq PNone (PStr ''None'') \<and> \<not> (is_number PNone \<and> is_number (PStr ''None''))
   \<and> (is_str PNone \<or> is_str (PStr ''None''))
   \<and> normalized_text sample_prims PNone False False
       = normalized_text sample_prims (PStr ''None'') False False
   \<and> \<not> equal_values sample_prims PNone (PStr ''None'') 0 False False"
  by (simp add: py_eq_def normalized_text_def equal_values_def str_or_none_def)

section \<open>Properties of the summary builder\<close>

lemma unique_index_fresh: "name @ ''_'' @ str_nat (unique_index names name i) \<notin> set names"
proof (induction names name i rule: unique_index.induct)
  case (1 names name i)
  then show ?case
    by (subst unique_index.simps) simp
qed


lemma ensure_unique_sheet_name_fresh:
  "ensure_unique_sheet_name wb name \<notin> set (sheetnames wb)"
  using unique_index_fresh [of name "sheetnames wb" 1]
  by (simp add: ensure_unique_sheet_name_def)

lemma add_summary_sheet_eq:
  "add_summary_sheet wb_out diff_list =
     \<lparr>out_title = ensure_unique_sheet_name wb_out ''Diff_Summary'',
      out_cells = append_rows (summary_rows diff_list) Map.empty,
      out_fills = Map.empty\<rparr> # wb_out"
  using ensure_unique_sheet_name_fresh [of wb_out "''Diff_Summary''"]
  by (simp add: add_summary_sheet_def create_sheet_def Let_def)


text \<open>
  C9. \<open>ensure_unique_sheet_name\<close> returns a name no sheet of the workbook has, so the
  removal in \<open>add_summary_sheet\<close> never runs: the result is the old workbook, every
  sheet unchanged and in place, behind one new first sheet whose title is new.
\<close>

theorem add_summary_sheet_keeps_sheets:
  "ensure_unique_sheet_name wb_out name \<notin> set (sheetnames wb_out)
   \<and> tl (add_summary_sheet wb_out diff_list) = wb_out
   \<and> length (add_summary_sheet wb_out diff_list) = length wb_out + 1
   \<and> out_title (hd (add_summary_sheet wb_out diff_list)) \<notin> set (sheetnames wb_out)
   \<and> set wb_out \<subseteq> set (add_summary_sheet wb_out diff_list)"
  using ensure_unique_sheet_name_fresh [of wb_out name]
    ensure_unique_sheet_name_fresh [of wb_out "''Diff_Summary''"]
  by (auto simp: add_summary_sheet_eq)




section \<open>Properties of the cell diff engine\<close>

lemma range_non_anchors_iff:
  "(r, c) \<in> set (range_non_anchors mr) \<longleftrightarrow>
     min_row mr \<le> r \<and> r \<le> max_row mr \<and> min_col mr \<le> c \<and> c \<le> max_col mr
     \<and> (r, c) \<noteq> (min_row mr, min_col mr)"
  by (auto simp: range_non_anchors_def split: if_splits)

lemma merged_non_anchors_iff: "rc \<in> merged_non_anchors ws \<longleftrightarrow> non_anchor_member ws rc"
proof (cases rc)
  case (Pair r c)
  then show ?thesis
    unfolding merged_non_anchors_def non_anchor_member_def
    by (simp add: range_non_anchors_iff Bex_def)
qed

lemma iter_diff_cells_iff:
  "(r, c, st) \<in> set (iter_diff_cells P base_ws new_ws tolerance trim_whitespace case_insensitive) \<longleftrightarrow>
     1 \<le> r \<and> r \<le> max (fst (sheet_used_bounds base_ws)) (fst (sheet_used_bounds new_ws))
     \<and> 1 \<le> c \<and> c \<le> max (snd (sheet_used_bounds base_ws)) (snd (sheet_used_bounds new_ws))
     \<and> (r, c) \<notin> merged_non_anchors base_ws \<and> (r, c) \<notin> merged_non_anchors new_ws
     \<and> diff_status P (cell_value base_ws r c) (cell_value new_ws r c)
           tolerance trim_whitespace case_insensitive = Some st"
  unfolding iter_diff_cells_def Let_def
  by (auto split: if_splits option.splits)

text \<open>
  C3. Whatever the two sheets hold and whatever the configuration, a coordinate that
  \<open>iter_diff_cells\<close> yields is not a non-anchor member of a merged region of either
  sheet, and lies in the rectangle from (1, 1) to the larger of the two sheets' used
  bounds in each direction; when each sheet's values lie within its own used bounds, the
  coordinate lies within the used bounds of one of the two sheets.
\<close>

theorem iter_diff_cells_coordinates:
  assumes "(r, c, st) \<in> set (iter_diff_cells P base_ws new_ws tolerance trim_whitespace case_insensitive)"
  shows "\<not> non_anchor_member base_ws (r, c) \<and> \<not> non_anchor_member new_ws (r, c)
     \<and> 1 \<le> r \<and> r \<le> max (fst (sheet_used_bounds base_ws)) (fst (sheet_used_bounds new_ws))
     \<and> 1 \<le> c \<and> c \<le> max (snd (sheet_used_bounds base_ws)) (snd (sheet_used_bounds new_ws))
     \<and> (values_in_bounds base_ws \<and> values_in_bounds new_ws
        \<longrightarrow> in_used_bounds base_ws (r, c) \<or> in_used_bounds new_ws (r, c))"
proof -
  from assms have facts: "1 \<le> r" "r \<le> max (fst (sheet_used_bounds base_ws)) (fst (sheet_used_bounds new_ws))"
    "1 \<le> c" "c \<le> max (snd (sheet_used_bounds base_ws)) (snd (sheet_used_bounds new_ws))"
    "(r, c) \<notin> merged_non_anchors base_ws" "(r, c) \<notin> merged_non_anchors new_ws"
    and st: "diff_status P (cell_value base_ws r c) (cell_value new_ws r c)
           tolerance trim_whitespace case_insensitive = Some st"
    by (simp_all add: iter_diff_cells_iff)
  from st have "cell_value base_ws r c \<noteq> PNone \<or> cell_value new_ws r c \<noteq> PNone"
    by (auto simp: diff_status_def)
  then have "values_in_bounds base_ws \<and> values_in_bounds new_ws
        \<longrightarrow> in_used_bounds base_ws (r, c) \<or> in_used_bounds new_ws (r, c)"
    by (auto simp: values_in_bounds_def)
  with facts show ?thesis
    by (simp add: merged_non_anchors_iff)
qed

theorem iter_diff_cells_coordinates_witness:
  "(5, 3, ''added'') \<in> set (iter_diff_cells sample_prims example_base example_new 0 False False)
   \<and> values_in_bounds example_base \<and> values_in_bounds example_new
   \<and> \<not> non_anchor_member example_base (5, 3) \<and> \<not> non_anchor_member example_new (5, 3)
   \<and> (1::nat) \<le> 5
   \<and> 5 \<le> max (fst (sheet_used_bounds example_base)) (fst (sheet_used_bounds example_new))
   \<and> (1::nat) \<le> 3
   \<and> 3 \<le> max (snd (sheet_used_bounds example_base)) (snd (sheet_used_bounds example_new))
   \<and> (in_used_bounds example_base (5, 3) \<or> in_used_bounds example_new (5, 3))"
proof -
  have yielded: "(5, 3, ''added'')
      \<in> set (iter_diff_cells sample_prims example_base example_new 0 False False)"
    by code_simp
  have b1: "sheet_used_bounds example_base = (4, 2)"
    by code_simp
  have b2: "sheet_used_bounds example_new = (5, 3)"
    by code_simp
  have v1: "values_in_bounds example_base"
    unfolding values_in_bounds_def in_used_bounds_def b1
    by (auto simp: cell_value_def example_base_def split: if_splits)
  have v2: "values_in_bounds example_new"
    unfolding values_in_bounds_def in_used_bounds_def b2
    by (auto simp: cell_value_def example_new_def split: if_splits)
  show ?thesis
    using iter_diff_cells_coordinates [OF yielded] yielded v1 v2 by blast
qed

lemma diff_status_not_changed:
  "filter (\<lambda>x. snd (snd x) \<noteq> ''changed'')
     (case diff_status P a b tolerance trim_whitespace case_insensitive of
        None \<Rightarrow> [] | Some st \<Rightarrow> [(r, c, st)]) =
   (if (a = PNone \<or> py_eq a (PStr '''')) \<and> \<not> (b = PNone \<or> py_eq b (PStr ''''))
      then [(r, c, ''added'')]
    else if (b = PNone \<or> py_eq b (PStr '''')) \<and> \<not> (a = PNone \<or> py_eq a (PStr ''''))
      then [(r, c, ''removed'')]
    else [])"
  by (simp add: diff_status_def Let_def)

lemma iter_diff_cells_not_changed:
  "filter (\<lambda>x. snd (snd x) \<noteq> ''changed'')
     (iter_diff_cells P base_ws new_ws tolerance trim_whitespace case_insensitive) =
   filter (\<lambda>x. snd (snd x) \<noteq> ''changed'')
     (iter_diff_cells P' base_ws new_ws tolerance' trim_whitespace' case_insensitive')"
  unfolding iter_diff_cells_def Let_def filter_concat map_map o_def
  by (simp add: if_distrib [of "filter _"] diff_status_not_changed cong: if_cong)

text \<open>
  C5. The empty test reads the raw values. A coordinate that is iterated, holds a
  non-empty text in the base sheet (whitespace-only text included) and \<^verbatim>\<open>None\<close> or the
  empty string in the new sheet is yielded as \<^verbatim>\<open>removed\<close> and as nothing else, for every
  tolerance and both flags. The added and removed entries are the same list for any two
  configurations; a \<^verbatim>\<open>changed\<close> entry needs two non-empty values that \<open>equal_values\<close>
  rejects.
\<close>

theorem empty_test_before_normalization:
  "(1 \<le> r \<and> r \<le> max (fst (sheet_used_bounds base_ws)) (fst (sheet_used_bounds new_ws))
      \<and> 1 \<le> c \<and> c \<le> max (snd (sheet_used_bounds base_ws)) (snd (sheet_used_bounds new_ws))
      \<and> (r, c) \<notin> merged_non_anchors base_ws \<and> (r, c) \<notin> merged_non_anchors new_ws
      \<and> cell_value base_ws r c = PStr s \<and> s \<noteq> []
      \<and> (cell_value new_ws r c = PNone \<or> cell_value new_ws r c = PStr '''')
    \<longrightarrow> (\<forall>st. (r, c, st) \<in> set (iter_diff_cells P base_ws new_ws tolerance trim_whitespace case_insensitive)
           \<longleftrightarrow> st = ''removed''))
   \<and> filter (\<lambda>x. snd (snd x) \<noteq> ''changed'')
         (iter_diff_cells P base_ws new_ws tolerance trim_whitespace case_insensitive)
     = filter (\<lambda>x. snd (snd x) \<noteq> ''changed'')
         (iter_diff_cells P' base_ws new_ws tolerance' trim_whitespace' case_insensitive')
   \<and> ((r, c, ''changed'') \<in> set (iter_diff_cells P base_ws new_ws tolerance trim_whitespace case_insensitive)
      \<longrightarrow> cell_value base_ws r c \<noteq> PNone \<and> cell_value base_ws r c \<noteq> PStr ''''
          \<and> cell_value new_ws r c \<noteq> PNone \<and> cell_value new_ws r c \<noteq> PStr ''''
          \<and> \<not> equal_values P (cell_value base_ws r c) (cell_value new_ws r c)
                tolerance trim_whitespace case_insensitive)"
proof (intro conjI impI)
  assume h: "1 \<le> r \<and> r \<le> max (fst (sheet_used_bounds base_ws)) (fst (sheet_used_bounds new_ws))
      \<and> 1 \<le> c \<and> c \<le> max (snd (sheet_used_bounds base_ws)) (snd (sheet_used_bounds new_ws))
      \<and> (r, c) \<notin> merged_non_anchors base_ws \<and> (r, c) \<notin> merged_non_anchors new_ws
      \<and> cell_value base_ws r c = PStr s \<and> s \<noteq> []
      \<and> (cell_value new_ws r c = PNone \<or> cell_value new_ws r c = PStr '''')"
  then have "diff_status P (cell_value base_ws r c) (cell_value new_ws r c)
        tolerance trim_whitespace case_insensitive = Some ''removed''"
    by (auto simp: diff_status_def)
  with h show "\<forall>st. (r, c, st) \<in> set (iter_diff_cells P base_ws new_ws tolerance trim_whitespace case_insensitive)
           \<longleftrightarrow> st = ''removed''"
    by (auto simp: iter_diff_cells_iff)
next
  show "filter (\<lambda>x. snd (snd x) \<noteq> ''changed'')
         (iter_diff_cells P base_ws new_ws tolerance trim_whitespace case_insensitive)
     = filter (\<lambda>x. snd (snd x) \<noteq> ''changed'')
         (iter_diff_cells P' base_ws new_ws tolerance' trim_whitespace' case_insensitive')"
    by (rule iter_diff_cells_not_changed)
next
  assume "(r, c, ''changed'') \<in> set (iter_diff_cells P base_ws new_ws tolerance trim_whitespace case_insensitive)"
  then have st: "diff_status P (cell_value base_ws r c) (cell_value new_ws r c)
        tolerance trim_whitespace case_insensitive = Some ''changed''"
    by (simp add: iter_diff_cells_iff)
  then show "cell_value base_ws r c \<noteq> PNone" "cell_value base_ws r c \<noteq> PStr ''''"
    "cell_value new_ws r c \<noteq> PNone" "cell_value new_ws r c \<noteq> PStr ''''"
    "\<not> equal_values P (cell_value base_ws r c) (cell_value new_ws r c)
                tolerance trim_whitespace case_insensitive"
    by (auto simp: diff_status_def Let_def split: if_splits)
qed

theorem empty_test_before_normalization_witness:
  "(1::nat) \<le> 1
   \<and> 1 \<le> max (fst (sheet_used_bounds example_base)) (fst (sheet_used_bounds example_new))
   \<and> (1::nat) \<le> 2
   \<and> 2 \<le> max (snd (sheet_used_bounds example_base)) (snd (sheet_used_bounds example_new))
   \<and> (1, 2) \<notin> merged_non_anchors example_base \<and> (1, 2) \<notin> merged_non_anchors example_new
   \<and> cell_value example_base 1 2 = PStr ''  '' \<and> strip ''  '' = []
   \<and> cell_value example_new 1 2 = PNone
   \<and> (1, 2, ''removed'') \<in> set (iter_diff_cells sample_prims example_base example_new 0 True True)
   \<and> (1, 1, ''changed'') \<in> set (iter_diff_cells sample_prims example_base example_new 0 False False)
   \<and> cell_value example_base 1 1 \<noteq> PNone \<and> cell_value example_new 1 1 \<noteq> PNone"
proof -
  have b1: "sheet_used_bounds example_base = (4, 2)"
    by code_simp
  have b2: "sheet_used_bounds example_new = (5, 3)"
    by code_simp
  have s1: "(1, 2) \<notin> merged_non_anchors example_base"
    by code_simp
  have s2: "(1, 2) \<notin> merged_non_anchors example_new"
    by code_simp
  have v1: "cell_value example_base 1 2 = PStr ''  ''"
    by (simp add: cell_value_def example_base_def)
  have v2: "cell_value example_new 1 2 = PNone"
    by (simp add: cell_value_def example_new_def)
  have blank: "strip ''  '' = []"
    by code_simp
  have changed: "(1, 1, ''changed'')
      \<in> set (iter_diff_cells sample_prims example_base example_new 0 False False)"
    by code_simp
  have pre: "1 \<le> (1::nat)
      \<and> 1 \<le> max (fst (sheet_used_bounds example_base)) (fst (sheet_used_bounds example_new))
      \<and> 1 \<le> (2::nat)
      \<and> 2 \<le> max (snd (sheet_used_bounds example_base)) (snd (sheet_used_bounds example_new))
      \<and> (1, 2) \<notin> merged_non_anchors example_base \<and> (1, 2) \<notin> merged_non_anchors example_new
      \<and> cell_value example_base 1 2 = PStr ''  '' \<and> ''  '' \<noteq> []
      \<and> (cell_value example_new 1 2 = PNone \<or> cell_value example_new 1 2 = PStr [])"
    using s1 s2 v1 v2 by (simp add: b1 b2)
  have removed: "(1, 2, ''removed'')
      \<in> set (iter_diff_cells sample_prims example_base example_new 0 True True)"
    using empty_test_before_normalization [of 1 example_base example_new 2 "''  ''"
      sample_prims 0 True True sample_prims 0 False False, THEN conjunct1, rule_format, OF pre]
    by blast
  have filled: "cell_value example_base 1 1 \<noteq> PNone \<and> cell_value example_new 1 1 \<noteq> PNone"
    using empty_test_before_normalization [of 1 example_base example_new 1 "''  ''"
      sample_prims 0 False False sample_prims 0 False False, THEN conjunct2, THEN conjunct2,
      rule_format, OF changed]
    by blast
  show ?thesis
    using pre blank removed changed filled v2 by blast
qed

section \<open>Properties of the workbook comparator\<close>


lemma filter_sorted_list_of_set:
  assumes "finite A"
  shows "filter Q (sorted_list_of_set A) = sorted_list_of_set {x \<in> A. Q x}"
proof (rule sorted_distinct_set_unique)
  show "sorted (filter Q (sorted_list_of_set A))"
    by (simp add: sorted_wrt_filter)
  show "distinct (filter Q (sorted_list_of_set A))"
    by simp
  show "sorted (sorted_list_of_set {x \<in> A. Q x})" and "distinct (sorted_list_of_set {x \<in> A. Q x})"
    by simp_all
  show "set (filter Q (sorted_list_of_set A)) = set (sorted_list_of_set {x \<in> A. Q x})"
    using assms by auto
qed

lemma filter_sorted_names:
  "filter Q (sorted_list_of_set (set xs \<inter> set ys)) = sorted_list_of_set {x \<in> set xs \<inter> set ys. Q x}"
  "filter Q (sorted_list_of_set (set xs - set ys)) = sorted_list_of_set {x \<in> set xs - set ys. Q x}"
  by (rule filter_sorted_list_of_set, simp)+

lemma to_compare_filter:
  "(if truthy exclude_sheets
    then filter (\<lambda>s. \<not> contains exclude_sheets s)
           (if truthy include_sheets
            then filter (\<lambda>s. contains include_sheets s) common else common)
    else (if truthy include_sheets
          then filter (\<lambda>s. contains include_sheets s) common else common))
   = filter (\<lambda>s. \<not> skipped include_sheets exclude_sheets s) common"
  by (auto simp: skipped_def intro: filter_cong)

lemma compare_workbooks_unfold:
  "compare_workbooks P base_wb new_wb_values new_wb_out include_sheets exclude_sheets
       tolerance trim_whitespace case_insensitive highlight =
   (let to_compare = sorted_list_of_set
          {s \<in> set (ws_sheetnames base_wb) \<inter> set (ws_sheetnames new_wb_values).
             \<not> skipped include_sheets exclude_sheets s};
        missing =
          map (missing_record ''missing_sheet_new'')
            (sorted_list_of_set
               {s \<in> set (ws_sheetnames base_wb) - set (ws_sheetnames new_wb_values).
                  \<not> skipped include_sheets exclude_sheets s})
          @ map (missing_record ''missing_sheet_base'')
            (sorted_list_of_set
               {s \<in> set (ws_sheetnames new_wb_values) - set (ws_sheetnames base_wb).
                  \<not> skipped include_sheets exclude_sheets s})
    in case compare_sheets P base_wb new_wb_values tolerance trim_whitespace case_insensitive
              highlight to_compare new_wb_out of
         Inl e \<Rightarrow> Inl e
       | Inr (recs, wb1) \<Rightarrow>
           Inr ((length to_compare, length (missing @ recs)), missing @ recs,
                add_summary_sheet wb1 (missing @ recs)))"
  unfolding compare_workbooks_def Let_def to_compare_filter filter_sorted_names
  by (rule refl)











text \<open>
  C10. An empty include set, or an empty exclude set, gives the same result as no set
  at all. With both filters absent or empty, the number of sheets compared is the
  number of common sheets and every sheet present in only one workbook has its
  missing-sheet record in the list.
\<close>

theorem empty_filter_set_ignored:
  "compare_workbooks P base_wb new_wb_values new_wb_out (Some {}) exclude_sheets
       tolerance trim_whitespace case_insensitive highlight
   = compare_workbooks P base_wb new_wb_values new_wb_out None exclude_sheets
       tolerance trim_whitespace case_insensitive highlight
   \<and> compare_workbooks P base_wb new_wb_values new_wb_out include_sheets (Some {})
       tolerance trim_whitespace case_insensitive highlight
   = compare_workbooks P base_wb new_wb_values new_wb_out include_sheets None
       tolerance trim_whitespace case_insensitive highlight
   \<and> (include_sheets \<in> {None, Some {}} \<and> exclude_sheets \<in> {None, Some {}}
       \<and> compare_workbooks P base_wb new_wb_values new_wb_out include_sheets exclude_sheets
            tolerance trim_whitespace case_insensitive highlight
          = Inr ((num_sheets, num_diffs), diff_list, saved)
      \<longrightarrow> num_sheets = card (set (ws_sheetnames base_wb) \<inter> set (ws_sheetnames new_wb_values))
          \<and> (\<forall>s \<in> set (ws_sheetnames base_wb) - set (ws_sheetnames new_wb_values).
                missing_record ''missing_sheet_new'' s \<in> set diff_list)
          \<and> (\<forall>s \<in> set (ws_sheetnames new_wb_values) - set (ws_sheetnames base_wb).
                missing_record ''missing_sheet_base'' s \<in> set diff_list))"
proof (intro conjI impI)
  show "compare_workbooks P base_wb new_wb_values new_wb_out (Some {}) exclude_sheets
       tolerance trim_whitespace case_insensitive highlight
   = compare_workbooks P base_wb new_wb_values new_wb_out None exclude_sheets
       tolerance trim_whitespace case_insensitive highlight"
    unfolding compare_workbooks_def skipped_def by (simp add: truthy_def)
next
  show "compare_workbooks P base_wb new_wb_values new_wb_out include_sheets (Some {})
       tolerance trim_whitespace case_insensitive highlight
   = compare_workbooks P base_wb new_wb_values new_wb_out include_sheets None
       tolerance trim_whitespace case_insensitive highlight"
    unfolding compare_workbooks_def skipped_def by (simp add: truthy_def)
next
  assume h: "include_sheets \<in> {None, Some {}} \<and> exclude_sheets \<in> {None, Some {}}
       \<and> compare_workbooks P base_wb new_wb_values new_wb_out include_sheets exclude_sheets
            tolerance trim_whitespace case_insensitive highlight
          = Inr ((num_sheets, num_diffs), diff_list, saved)"
  then have none: "\<And>s. \<not> skipped include_sheets exclude_sheets s"
    by (auto simp: skipped_def truthy_def)
  from h have run: "compare_workbooks P base_wb new_wb_values new_wb_out include_sheets
      exclude_sheets tolerance trim_whitespace case_insensitive highlight
      = Inr ((num_sheets, num_diffs), diff_list, saved)"
    by simp
  then obtain recs where
    count: "num_sheets = length (sorted_list_of_set
        {s \<in> set (ws_sheetnames base_wb) \<inter> set (ws_sheetnames new_wb_values).
           \<not> skipped include_sheets exclude_sheets s})"
    and all: "diff_list =
       (map (missing_record ''missing_sheet_new'')
         (sorted_list_of_set
            {s \<in> set (ws_sheetnames base_wb) - set (ws_sheetnames new_wb_values).
               \<not> skipped include_sheets exclude_sheets s})
       @ map (missing_record ''missing_sheet_base'')
         (sorted_list_of_set
            {s \<in> set (ws_sheetnames new_wb_values) - set (ws_sheetnames base_wb).
               \<not> skipped include_sheets exclude_sheets s}))
       @ recs"
    unfolding compare_workbooks_unfold Let_def by (auto split: sum.splits)
  have "{s \<in> set (ws_sheetnames base_wb) \<inter> set (ws_sheetnames new_wb_values).
           \<not> skipped include_sheets exclude_sheets s}
        = set (ws_sheetnames base_wb) \<inter> set (ws_sheetnames new_wb_values)"
    using none by blast
  then show "num_sheets = card (set (ws_sheetnames base_wb) \<inter> set (ws_sheetnames new_wb_values))"
    unfolding count by simp
  show "\<forall>s \<in> set (ws_sheetnames base_wb) - set (ws_sheetnames new_wb_values).
      missing_record ''missing_sheet_new'' s \<in> set diff_list"
    unfolding all by (simp add: none)
  show "\<forall>s \<in> set (ws_sheetnames new_wb_values) - set (ws_sheetnames base_wb).
      missing_record ''missing_sheet_base'' s \<in> set diff_list"
    unfolding all by (simp add: none)
qed

theorem empty_filter_set_ignored_witness:
  "\<exists>num_diffs diff_list saved.
     compare_workbooks sample_prims example_base_wb example_new_wb example_out (Some {}) (Some {})
       0 False False True = Inr ((1, num_diffs), diff_list, saved)
     \<and> card (set (ws_sheetnames example_base_wb) \<inter> set (ws_sheetnames example_new_wb)) = 1
     \<and> missing_record ''missing_sheet_new'' ''Old'' \<in> set diff_list
     \<and> missing_record ''missing_sheet_base'' ''New'' \<in> set diff_list"
proof -
  let ?run = "compare_workbooks sample_prims example_base_wb example_new_wb example_out
       (Some {}) (Some {}) 0 False False True"
  have "\<not> isl ?run"
    by code_simp
  then obtain num_sheets num_diffs diff_list saved
    where run: "?run = Inr ((num_sheets, num_diffs), diff_list, saved)"
    by (cases ?run) auto
  have pre: "Some {} \<in> {None, Some ({} :: string set)} \<and> Some {} \<in> {None, Some ({} :: string set)}
      \<and> ?run = Inr ((num_sheets, num_diffs), diff_list, saved)"
    using run by simp
  note facts = empty_filter_set_ignored [of sample_prims example_base_wb example_new_wb
      example_out "Some {}" 0 False False True "Some {}" num_sheets num_diffs diff_list saved,
      THEN conjunct2, THEN conjunct2, rule_format, OF pre]
  have names: "ws_sheetnames example_base_wb = [''S1'', ''Old'']"
    "ws_sheetnames example_new_wb = [''New'', ''S1'']"
    by (simp_all add: ws_sheetnames_def example_base_wb_def example_new_wb_def
        example_base_def example_new_def)
  have common: "set (ws_sheetnames example_base_wb) \<inter> set (ws_sheetnames example_new_wb) = {''S1''}"
    unfolding names by auto
  from facts have "num_sheets = 1"
    unfolding common by simp
  moreover from facts have "missing_record ''missing_sheet_new'' ''Old'' \<in> set diff_list"
    unfolding names by simp
  moreover from facts have "missing_record ''missing_sheet_base'' ''New'' \<in> set diff_list"
    unfolding names by simp
  ultimately show ?thesis
    using run common by auto
qed

end
